theory Spec2Isabelle
  imports Complex_Main
begin

section \<open>Custom input/output naming scheme (IOSchemeCustomInternal)\<close>

text \<open>
  The class holds two \<^verbatim>\<open>std::vector<std::string>\<close> members, \<^verbatim>\<open>entries_\<close> and
  \<^verbatim>\<open>descriptions_\<close> (the fields \<open>entries\<close> and \<open>descriptions\<close> of the record; a HOL
  name cannot end with an underscore). Every member function other than the constructor is declared
  \<^verbatim>\<open>const\<close>. The index type \<^verbatim>\<open>int\<close> is modelled by HOL's \<open>int\<close>; positions in a
  vector are natural numbers.

  \<^verbatim>\<open>casadi_assert\<close>, \<^verbatim>\<open>casadi_assert_message\<close> and \<^verbatim>\<open>casadi_error\<close> throw; the
  exception is the \<open>Inl\<close> branch of the result. The data that the source streams into
  the message is kept as arguments of the constructor. An unchecked
  \<^verbatim>\<open>operator[]\<close> outside the vector is undefined behaviour in C++ and is made
  visible as \<open>OutOfBoundsRead\<close>.
\<close>

datatype io_exception =
    AssertionFailed
  | EntryIndexOutOfRange int nat
  | EntryNotAvailable string string
  | OutOfBoundsRead

record IOSchemeCustomInternal =
  entries :: "string list"
  descriptions :: "string list"

text \<open>\<^verbatim>\<open>std::vector::resize(n)\<close>: keeps the first \<open>n\<close> elements and pads with
  default-constructed (empty) strings.\<close>

definition vector_resize :: "string list \<Rightarrow> nat \<Rightarrow> string list" where
  "vector_resize v n = take n v @ replicate (n - length v) []"

text \<open>The constructor: the members are copied, an empty description list is resized
  to the number of entries, and then the sizes are asserted equal.\<close>

definition IOSchemeCustomInternal_new ::
  "string list \<Rightarrow> string list \<Rightarrow> io_exception + IOSchemeCustomInternal" where
  "IOSchemeCustomInternal_new es ds =
     (let ds1 = (if ds = [] then vector_resize ds (length es) else ds)
      in if length ds1 = length es
         then Inr \<lparr>entries = es, descriptions = ds1\<rparr>
         else Inl AssertionFailed)"

definition name :: "IOSchemeCustomInternal \<Rightarrow> string" where
  "name s = ''customIO''"

text \<open>The loop of \<^verbatim>\<open>entryNames\<close>: \<open>i\<close> is the loop counter, \<open>ss\<close> the string stream.\<close>

fun entryNames_loop :: "nat \<Rightarrow> string list \<Rightarrow> string \<Rightarrow> string" where
  "entryNames_loop i [] ss = ss"
| "entryNames_loop i (e # es) ss =
     entryNames_loop (Suc i) es ((if i \<noteq> 0 then ss @ '', '' else ss) @ e)"

definition entryNames :: "IOSchemeCustomInternal \<Rightarrow> string" where
  "entryNames s = entryNames_loop 0 (entries s) []"

definition entry :: "IOSchemeCustomInternal \<Rightarrow> int \<Rightarrow> io_exception + string" where
  "entry s i =
     (if 0 \<le> i \<and> nat i < length (entries s) then Inr (entries s ! nat i)
      else Inl (EntryIndexOutOfRange i (length (entries s))))"

definition entryEnum :: "IOSchemeCustomInternal \<Rightarrow> int \<Rightarrow> string" where
  "entryEnum s i = []"

text \<open>\<^verbatim>\<open>describe\<close> reads \<^verbatim>\<open>descriptions_[i]\<close> before \<^verbatim>\<open>entry(i)\<close> checks the index.\<close>

definition describe :: "IOSchemeCustomInternal \<Rightarrow> int \<Rightarrow> io_exception + string" where
  "describe s i =
     (if i < 0 \<or> length (descriptions s) \<le> nat i then Inl OutOfBoundsRead
      else if descriptions s ! nat i = [] then entry s i
      else (case entry s i of
              Inl e \<Rightarrow> Inl e
            | Inr n \<Rightarrow> Inr (n @ [CHR '' '', CHR 0x27] @ descriptions s ! nat i @ [CHR 0x27])))"

text \<open>The loop of \<^verbatim>\<open>index\<close>: \<open>k\<close> is the distance of the iterator from
  \<^verbatim>\<open>entries_.begin()\<close>; \<open>None\<close> means the loop ran to the end.\<close>

fun index_loop :: "string \<Rightarrow> string list \<Rightarrow> nat \<Rightarrow> nat option" where
  "index_loop n [] k = None"
| "index_loop n (e # es) k = (if n = e then Some k else index_loop n es (Suc k))"

definition index :: "IOSchemeCustomInternal \<Rightarrow> string \<Rightarrow> io_exception + int" where
  "index s n =
     (case index_loop n (entries s) 0 of
        Some k \<Rightarrow> Inr (int k)
      | None \<Rightarrow> Inl (EntryNotAvailable n (entryNames s)))"

definition size_ios :: "IOSchemeCustomInternal \<Rightarrow> int" where
  "size_ios s = int (length (entries s))"

text \<open>\<^verbatim>\<open>print\<close> and \<^verbatim>\<open>repr\<close> append to the stream they are given.\<close>

definition print :: "IOSchemeCustomInternal \<Rightarrow> string \<Rightarrow> string" where
  "print s stream = stream @ ''customIO('' @ entryNames s @ '')''"

definition repr :: "IOSchemeCustomInternal \<Rightarrow> string \<Rightarrow> string" where
  "repr s stream = stream @ ''customIO('' @ entryNames s @ '')''"

text \<open>
  A client drives an object through a sequence of member-function calls. Each call
  returns its value (or the exception) together with the object after the call; all
  member functions are \<^verbatim>\<open>const\<close>, so this is the object itself.
\<close>

datatype ios_call =
    Name | EntryNames | Entry int | EntryEnum int | Describe int
  | Index string | Size | Print string | Repr string

datatype ios_value = VString string | VInt int

fun ios_step ::
  "IOSchemeCustomInternal \<Rightarrow> ios_call \<Rightarrow> (io_exception + ios_value) \<times> IOSchemeCustomInternal"
where
  "ios_step s Name = (Inr (VString (name s)), s)"
| "ios_step s EntryNames = (Inr (VString (entryNames s)), s)"
| "ios_step s (Entry i) = (map_sum id VString (entry s i), s)"
| "ios_step s (EntryEnum i) = (Inr (VString (entryEnum s i)), s)"
| "ios_step s (Describe i) = (map_sum id VString (describe s i), s)"
| "ios_step s (Index n) = (map_sum id VInt (index s n), s)"
| "ios_step s Size = (Inr (VInt (size_ios s)), s)"
| "ios_step s (Print stream) = (Inr (VString (print s stream)), s)"
| "ios_step s (Repr stream) = (Inr (VString (repr s stream)), s)"

fun ios_run :: "IOSchemeCustomInternal \<Rightarrow> ios_call list \<Rightarrow> IOSchemeCustomInternal" where
  "ios_run s [] = s"
| "ios_run s (c # cs) = ios_run (snd (ios_step s c)) cs"


section \<open>The MUMPS linear-solver backend (MumpsInterface)\<close>

text \<open>
  \<^verbatim>\<open>DMUMPS_STRUC_C\<close> is the control structure of the MUMPS library and
  \<^verbatim>\<open>MumpsMemory\<close> the memory object of the plugin; only the members that
  \<^verbatim>\<open>MumpsInterface::solve\<close> touches are kept. The pointers \<^verbatim>\<open>irn\<close>, \<^verbatim>\<open>jcn\<close>,
  \<^verbatim>\<open>a\<close> and \<^verbatim>\<open>rhs\<close> are modelled by the arrays they point to. The type of a
  \<^verbatim>\<open>double\<close> is left as the type parameter \<open>'d\<close>: the interface only moves such
  values. The library routine \<^verbatim>\<open>dmumps_c\<close> is external and is a parameter of the model.

  \<^verbatim>\<open>casadi_error(msg)\<close> throws an exception carrying \<open>msg\<close>. The result of a call is
  the exception or the returned flag, together with the memory object and the buffer
  \<^verbatim>\<open>x\<close> as they are when the call ends.
\<close>

datatype casadi_exception = CasadiError string | NullDereference

record 'd DMUMPS_STRUC_C =
  id_job :: int
  id_n :: int
  id_nnz :: int
  id_irn :: "int list"
  id_jcn :: "int list"
  id_a :: "'d list"
  id_rhs :: "'d list"
  id_icntl :: "int list"

record 'd MumpsMemory =
  mem_id :: "'d DMUMPS_STRUC_C option"
  mem_irn :: "int list"
  mem_jcn :: "int list"

text \<open>The assignments of \<^verbatim>\<open>solve\<close> to the control structure, in the order of the source
  (\<^verbatim>\<open>ICNTL(I)\<close> is \<^verbatim>\<open>icntl[(I) - 1]\<close>).\<close>

definition solve_define_problem ::
  "int \<Rightarrow> 'd MumpsMemory \<Rightarrow> 'd list \<Rightarrow> 'd list \<Rightarrow> 'd DMUMPS_STRUC_C \<Rightarrow> 'd DMUMPS_STRUC_C"
where
  "solve_define_problem nrow_sp m A x d =
     d\<lparr>id_n := nrow_sp,
       id_nnz := int (length (mem_irn m)),
       id_irn := mem_irn m,
       id_jcn := mem_jcn m,
       id_a := A,
       id_rhs := x,
       id_icntl := (id_icntl d)[0 := - 1, 1 := - 1, 2 := - 1, 3 := 0],
       id_job := 6\<rparr>"

definition solve ::
  "('d DMUMPS_STRUC_C \<Rightarrow> 'd DMUMPS_STRUC_C) \<Rightarrow> int \<Rightarrow> 'd MumpsMemory \<Rightarrow> 'd list \<Rightarrow> 'd list \<Rightarrow>
     int \<Rightarrow> bool \<Rightarrow> (casadi_exception + int) \<times> 'd MumpsMemory \<times> 'd list"
where
  "solve dmumps_c nrow_sp m A x nrhs tr =
     (if tr then (Inl (CasadiError ''not implemented''), m, x)
      else if nrhs \<noteq> 1 then (Inl (CasadiError ''not implemented''), m, x)
      else (case mem_id m of
              None \<Rightarrow> (Inl NullDereference, m, x)
            | Some d \<Rightarrow>
                (let d1 = dmumps_c (solve_define_problem nrow_sp m A x d)
                 in (Inr 0, m\<lparr>mem_id := Some d1\<rparr>, id_rhs d1))))"

section \<open>The general function (FX)\<close>

text \<open>
  \<^verbatim>\<open>fx.hpp\<close> declares the public class \<^verbatim>\<open>FX\<close> and defines the structure
  \<^verbatim>\<open>FunctionIO\<close> and the setters and getters (the macros \<^verbatim>\<open>SETTERS\<close> and \<^verbatim>\<open>GETTERS\<close>).
  The type of a \<^verbatim>\<open>double\<close> is the type parameter \<open>'a\<close>. A \<^verbatim>\<open>Matrix<double>\<close> is kept
  as its two dimensions and its entries.
\<close>

record 'a Matrix =
  size1 :: nat
  size2 :: nat
  elems :: "'a list"

record 'a FunctionIO =
  data :: "'a Matrix"
  dataF :: "'a Matrix list"
  dataA :: "'a Matrix list"

text \<open>The error taxonomy and the lifecycle of a function instance are those of the
  specification (sections 7 and 4.4).\<close>

datatype fx_error =
    NotInitialized | DimensionMismatch | ShapeError | OutOfRange
  | UnsupportedOperation | EvaluationError

datatype lifecycle = Uninitialized | Initializing | Ready

text \<open>A function instance: its lifecycle state and its input and output slots.\<close>

record 'a FX =
  phase :: lifecycle
  input_io :: "'a FunctionIO list"
  output_io :: "'a FunctionIO list"

text \<open>
  The public class forwards the work to its internal twin (class \<^verbatim>\<open>FXInternal\<close>), whose
  member functions are virtual and are not part of \<^verbatim>\<open>fx.hpp\<close>. They are parameters
  of the model: a function of the instance that returns the thrown error or the
  result, and the instance as the call leaves it.
\<close>

type_synonym 'a evaluate_internal = "'a FX \<Rightarrow> int \<Rightarrow> int \<Rightarrow> (fx_error + unit) \<times> 'a FX"

type_synonym 'a derivative_internal = "'a FX \<Rightarrow> int \<Rightarrow> int \<Rightarrow> (fx_error + 'a FX) \<times> 'a FX"

text \<open>Modelled from the spec: \<^verbatim>\<open>assertInit\<close> is declared in a base class that is not
  among the sources. Section 4.4: an operation on an instance that has not reached
  the Ready state fails with NotInitialized.\<close>

definition assertInit :: "'a FX \<Rightarrow> fx_error option" where
  "assertInit fx = (if phase fx = Ready then None else Some NotInitialized)"

text \<open>Modelled from the spec: the initialisation itself is not among the sources.
  Section 4.4: Uninitialized, then Initializing, then Ready, and never back.\<close>

definition init_begin :: "'a FX \<Rightarrow> 'a FX" where
  "init_begin fx = (if phase fx = Uninitialized then fx\<lparr>phase := Initializing\<rparr> else fx)"

definition init_finish :: "'a FX \<Rightarrow> 'a FX" where
  "init_finish fx = (if phase fx = Initializing then fx\<lparr>phase := Ready\<rparr> else fx)"

definition init :: "'a FX \<Rightarrow> 'a FX" where
  "init fx = init_finish (init_begin fx)"

text \<open>Modelled from the spec: the slot accessors \<^verbatim>\<open>input\<close>, \<^verbatim>\<open>output\<close>, \<^verbatim>\<open>fwdSeed\<close>,
  \<^verbatim>\<open>fwdSens\<close>, \<^verbatim>\<open>adjSeed\<close> and \<^verbatim>\<open>adjSens\<close> are only declared in the header. Section 4.1:
  an index or a direction outside the current configuration fails with OutOfRange. By
  the header's comments, forward seeds and adjoint sensitivities belong to input slots,
  forward sensitivities and adjoint seeds to output slots.\<close>

definition at_index :: "'x list \<Rightarrow> int \<Rightarrow> fx_error + 'x" where
  "at_index xs i = (if 0 \<le> i \<and> nat i < length xs then Inr (xs ! nat i) else Inl OutOfRange)"

datatype buffer = Input | Output | FwdSeed | FwdSens | AdjSeed | AdjSens

fun on_input :: "buffer \<Rightarrow> bool" where
  "on_input Input = True"
| "on_input Output = False"
| "on_input FwdSeed = True"
| "on_input FwdSens = False"
| "on_input AdjSeed = False"
| "on_input AdjSens = True"

fun io_buffer :: "buffer \<Rightarrow> 'a FunctionIO \<Rightarrow> int \<Rightarrow> fx_error + 'a Matrix" where
  "io_buffer Input io dir = Inr (data io)"
| "io_buffer Output io dir = Inr (data io)"
| "io_buffer FwdSeed io dir = at_index (dataF io) dir"
| "io_buffer FwdSens io dir = at_index (dataF io) dir"
| "io_buffer AdjSeed io dir = at_index (dataA io) dir"
| "io_buffer AdjSens io dir = at_index (dataA io) dir"

fun io_assign :: "buffer \<Rightarrow> 'a FunctionIO \<Rightarrow> int \<Rightarrow> 'a Matrix \<Rightarrow> 'a FunctionIO" where
  "io_assign Input io dir m = io\<lparr>data := m\<rparr>"
| "io_assign Output io dir m = io\<lparr>data := m\<rparr>"
| "io_assign FwdSeed io dir m = io\<lparr>dataF := (dataF io)[nat dir := m]\<rparr>"
| "io_assign FwdSens io dir m = io\<lparr>dataF := (dataF io)[nat dir := m]\<rparr>"
| "io_assign AdjSeed io dir m = io\<lparr>dataA := (dataA io)[nat dir := m]\<rparr>"
| "io_assign AdjSens io dir m = io\<lparr>dataA := (dataA io)[nat dir := m]\<rparr>"

text \<open>The matrix a call such as \<^verbatim>\<open>fwdSeed(ind,dir)\<close> refers to, and the instance after an
  assignment through that reference.\<close>

definition buffer_ref :: "buffer \<Rightarrow> 'a FX \<Rightarrow> int \<Rightarrow> int \<Rightarrow> fx_error + 'a Matrix" where
  "buffer_ref b fx ind dir =
     (case at_index (if on_input b then input_io fx else output_io fx) ind of
        Inl e \<Rightarrow> Inl e
      | Inr io \<Rightarrow> io_buffer b io dir)"

definition buffer_assign :: "buffer \<Rightarrow> 'a FX \<Rightarrow> int \<Rightarrow> int \<Rightarrow> 'a Matrix \<Rightarrow> 'a FX" where
  "buffer_assign b fx ind dir m =
     (if on_input b
      then fx\<lparr>input_io := (input_io fx)[nat ind := io_assign b (input_io fx ! nat ind) dir m]\<rparr>
      else fx\<lparr>output_io := (output_io fx)[nat ind := io_assign b (output_io fx ! nat ind) dir m]\<rparr>)"

text \<open>Modelled from the spec: \<^verbatim>\<open>Matrix<double>::set\<close> and \<^verbatim>\<open>get\<close> are not among the
  sources. They copy the entries from, or to, a vector that has to have the size of
  the buffer (section 7: a shape that disagrees is reported, never truncated or
  padded).\<close>

definition Matrix_set :: "'a Matrix \<Rightarrow> 'a list \<Rightarrow> fx_error + 'a Matrix" where
  "Matrix_set m val =
     (if length val = length (elems m) then Inr (m\<lparr>elems := val\<rparr>) else Inl DimensionMismatch)"

definition Matrix_get :: "'a Matrix \<Rightarrow> 'a list \<Rightarrow> fx_error + 'a list" where
  "Matrix_get m val =
     (if length val = length (elems m) then Inr (elems m) else Inl DimensionMismatch)"

text \<open>The macro \<^verbatim>\<open>SETTERS\<close>: \<^verbatim>\<open>assertInit()\<close> first, then the accessor, then \<^verbatim>\<open>set(val)\<close>
  on the matrix it refers to. The header instantiates the macro for four argument
  types; the instance for \<^verbatim>\<open>const std::vector<double>&\<close> is the one modelled. The index
  and the direction are \<^verbatim>\<open>int\<close>s, and the direction of \<^verbatim>\<open>setInput\<close> and \<^verbatim>\<open>setOutput\<close>,
  which have none, is passed as \<open>0\<close> and ignored.\<close>

definition set_buffer ::
  "buffer \<Rightarrow> 'a list \<Rightarrow> int \<Rightarrow> int \<Rightarrow> 'a FX \<Rightarrow> (fx_error + unit) \<times> 'a FX" where
  "set_buffer b val ind dir fx =
     (case assertInit fx of
        Some e \<Rightarrow> (Inl e, fx)
      | None \<Rightarrow>
          (case buffer_ref b fx ind dir of
             Inl e \<Rightarrow> (Inl e, fx)
           | Inr m \<Rightarrow>
               (case Matrix_set m val of
                  Inl e \<Rightarrow> (Inl e, fx)
                | Inr m1 \<Rightarrow> (Inr (), buffer_assign b fx ind dir m1))))"

definition setInput :: "'a list \<Rightarrow> int \<Rightarrow> 'a FX \<Rightarrow> (fx_error + unit) \<times> 'a FX" where
  "setInput val ind fx = set_buffer Input val ind 0 fx"

definition setOutput :: "'a list \<Rightarrow> int \<Rightarrow> 'a FX \<Rightarrow> (fx_error + unit) \<times> 'a FX" where
  "setOutput val ind fx = set_buffer Output val ind 0 fx"

definition setFwdSeed :: "'a list \<Rightarrow> int \<Rightarrow> int \<Rightarrow> 'a FX \<Rightarrow> (fx_error + unit) \<times> 'a FX" where
  "setFwdSeed val ind dir fx = set_buffer FwdSeed val ind dir fx"

definition setFwdSens :: "'a list \<Rightarrow> int \<Rightarrow> int \<Rightarrow> 'a FX \<Rightarrow> (fx_error + unit) \<times> 'a FX" where
  "setFwdSens val ind dir fx = set_buffer FwdSens val ind dir fx"

definition setAdjSeed :: "'a list \<Rightarrow> int \<Rightarrow> int \<Rightarrow> 'a FX \<Rightarrow> (fx_error + unit) \<times> 'a FX" where
  "setAdjSeed val ind dir fx = set_buffer AdjSeed val ind dir fx"

definition setAdjSens :: "'a list \<Rightarrow> int \<Rightarrow> int \<Rightarrow> 'a FX \<Rightarrow> (fx_error + unit) \<times> 'a FX" where
  "setAdjSens val ind dir fx = set_buffer AdjSens val ind dir fx"

text \<open>The macro \<^verbatim>\<open>GETTERS\<close>: \<^verbatim>\<open>assertInit()\<close> first, then the accessor, then \<^verbatim>\<open>get(val)\<close>.
  The getters are \<^verbatim>\<open>const\<close>; the value returned is the content written into \<^verbatim>\<open>val\<close>.\<close>

definition get_buffer ::
  "buffer \<Rightarrow> 'a list \<Rightarrow> int \<Rightarrow> int \<Rightarrow> 'a FX \<Rightarrow> (fx_error + 'a list) \<times> 'a FX" where
  "get_buffer b val ind dir fx =
     (case assertInit fx of
        Some e \<Rightarrow> (Inl e, fx)
      | None \<Rightarrow>
          (case buffer_ref b fx ind dir of
             Inl e \<Rightarrow> (Inl e, fx)
           | Inr m \<Rightarrow> (Matrix_get m val, fx)))"

definition getInput :: "'a list \<Rightarrow> int \<Rightarrow> 'a FX \<Rightarrow> (fx_error + 'a list) \<times> 'a FX" where
  "getInput val ind fx = get_buffer Input val ind 0 fx"

definition getOutput :: "'a list \<Rightarrow> int \<Rightarrow> 'a FX \<Rightarrow> (fx_error + 'a list) \<times> 'a FX" where
  "getOutput val ind fx = get_buffer Output val ind 0 fx"

definition getFwdSeed :: "'a list \<Rightarrow> int \<Rightarrow> int \<Rightarrow> 'a FX \<Rightarrow> (fx_error + 'a list) \<times> 'a FX" where
  "getFwdSeed val ind dir fx = get_buffer FwdSeed val ind dir fx"

definition getFwdSens :: "'a list \<Rightarrow> int \<Rightarrow> int \<Rightarrow> 'a FX \<Rightarrow> (fx_error + 'a list) \<times> 'a FX" where
  "getFwdSens val ind dir fx = get_buffer FwdSens val ind dir fx"

definition getAdjSeed :: "'a list \<Rightarrow> int \<Rightarrow> int \<Rightarrow> 'a FX \<Rightarrow> (fx_error + 'a list) \<times> 'a FX" where
  "getAdjSeed val ind dir fx = get_buffer AdjSeed val ind dir fx"

definition getAdjSens :: "'a list \<Rightarrow> int \<Rightarrow> int \<Rightarrow> 'a FX \<Rightarrow> (fx_error + 'a list) \<times> 'a FX" where
  "getAdjSens val ind dir fx = get_buffer AdjSens val ind dir fx"

text \<open>Modelled from the spec: \<^verbatim>\<open>evaluate\<close>, \<^verbatim>\<open>jacobian\<close> and \<^verbatim>\<open>hessian\<close> are only
  declared in the header. Section 4.4: they fail with NotInitialized before the Ready
  state. The header's comment on \<^verbatim>\<open>jacobian\<close>: the method calls the method of the same
  name on the internal twin.\<close>

definition evaluate ::
  "'a evaluate_internal \<Rightarrow> 'a FX \<Rightarrow> int \<Rightarrow> int \<Rightarrow> (fx_error + unit) \<times> 'a FX" where
  "evaluate ev fx nfdir nadir =
     (case assertInit fx of Some e \<Rightarrow> (Inl e, fx) | None \<Rightarrow> ev fx nfdir nadir)"

definition jacobian ::
  "'a derivative_internal \<Rightarrow> 'a FX \<Rightarrow> int \<Rightarrow> int \<Rightarrow> (fx_error + 'a FX) \<times> 'a FX" where
  "jacobian jac fx iind oind =
     (case assertInit fx of Some e \<Rightarrow> (Inl e, fx) | None \<Rightarrow> jac fx iind oind)"

definition hessian ::
  "'a derivative_internal \<Rightarrow> 'a FX \<Rightarrow> int \<Rightarrow> int \<Rightarrow> (fx_error + 'a FX) \<times> 'a FX" where
  "hessian hess fx iind oind =
     (case assertInit fx of Some e \<Rightarrow> (Inl e, fx) | None \<Rightarrow> hess fx iind oind)"

subsection \<open>The Evaluation Dispatcher\<close>

text \<open>
  Modelled from the spec: the evaluation pass of section 4.2 is not among the sources.
  A representation supplies the operations of section 6: (a) the zero-order
  evaluation, from the input values to the output values; (b) the forward
  directional derivative, from the input values, the outputs already computed and
  one seed per input to one sensitivity per output; (c) the adjoint directional
  derivative, from the input values and one seed per output to one sensitivity per
  input. Values are passed slot by slot, each slot as the list of its entries.
\<close>

record 'a representation =
  rep_eval :: "'a list list \<Rightarrow> 'a list list"
  rep_fwd :: "'a list list \<Rightarrow> 'a list list \<Rightarrow> 'a list list \<Rightarrow> 'a list list"
  rep_adj :: "'a list list \<Rightarrow> 'a list list \<Rightarrow> 'a list list"

text \<open>The requested directions are allocated in every slot (otherwise OutOfRange);
  every sensitivity buffer has as many entries as the value buffer of its slot
  (otherwise DimensionMismatch).\<close>

definition dirs_allocated :: "nat \<Rightarrow> nat \<Rightarrow> 'a FX \<Rightarrow> bool" where
  "dirs_allocated nf na fx =
     list_all (\<lambda>io. nf \<le> length (dataF io) \<and> na \<le> length (dataA io))
       (input_io fx @ output_io fx)"

definition shapes_agree :: "'a FX \<Rightarrow> bool" where
  "shapes_agree fx =
     list_all (\<lambda>io. list_all (\<lambda>m. length (elems m) = length (elems (data io)))
                       (dataF io @ dataA io))
       (input_io fx @ output_io fx)"

text \<open>What a representation returns fits the slots it is written to: one list per slot,
  each as long as the slot's value buffer (otherwise EvaluationError).\<close>

definition fits :: "'a list list \<Rightarrow> 'a FunctionIO list \<Rightarrow> bool" where
  "fits vs ios = (map length vs = map (\<lambda>io. length (elems (data io))) ios)"

definition slot_values :: "'a FunctionIO list \<Rightarrow> 'a list list" where
  "slot_values ios = map (\<lambda>io. elems (data io)) ios"

definition put_values :: "'a list list \<Rightarrow> 'a FunctionIO list \<Rightarrow> 'a FunctionIO list" where
  "put_values vs ios = map2 (\<lambda>v io. io\<lparr>data := (data io)\<lparr>elems := v\<rparr>\<rparr>) vs ios"

definition fwd_values :: "nat \<Rightarrow> 'a FunctionIO list \<Rightarrow> 'a list list" where
  "fwd_values d ios = map (\<lambda>io. elems (dataF io ! d)) ios"

definition put_fwd :: "nat \<Rightarrow> 'a list list \<Rightarrow> 'a FunctionIO list \<Rightarrow> 'a FunctionIO list" where
  "put_fwd d vs ios =
     map2 (\<lambda>v io. io\<lparr>dataF := (dataF io)[d := (dataF io ! d)\<lparr>elems := v\<rparr>]\<rparr>) vs ios"

definition adj_values :: "nat \<Rightarrow> 'a FunctionIO list \<Rightarrow> 'a list list" where
  "adj_values d ios = map (\<lambda>io. elems (dataA io ! d)) ios"

definition put_adj :: "nat \<Rightarrow> 'a list list \<Rightarrow> 'a FunctionIO list \<Rightarrow> 'a FunctionIO list" where
  "put_adj d vs ios =
     map2 (\<lambda>v io. io\<lparr>dataA := (dataA io)[d := (dataA io ! d)\<lparr>elems := v\<rparr>]\<rparr>) vs ios"

text \<open>Step 2: one forward direction after the other; direction \<open>d\<close> reads the forward
  seeds \<open>d\<close> of the inputs and writes the forward sensitivities \<open>d\<close> of the outputs.\<close>

fun forward_sweep ::
  "'a representation \<Rightarrow> 'a list list \<Rightarrow> 'a list list \<Rightarrow> nat list \<Rightarrow> 'a FX \<Rightarrow>
     fx_error option \<times> 'a FX" where
  "forward_sweep rep x y [] fx = (None, fx)"
| "forward_sweep rep x y (d # ds) fx =
     (let s = rep_fwd rep x y (fwd_values d (input_io fx))
      in if fits s (output_io fx)
         then forward_sweep rep x y ds (fx\<lparr>output_io := put_fwd d s (output_io fx)\<rparr>)
         else (Some EvaluationError, fx))"

text \<open>Step 3: one adjoint direction after the other; direction \<open>d\<close> reads the adjoint
  seeds \<open>d\<close> of the outputs and writes the adjoint sensitivities \<open>d\<close> of the inputs.\<close>

fun adjoint_sweep ::
  "'a representation \<Rightarrow> 'a list list \<Rightarrow> nat list \<Rightarrow> 'a FX \<Rightarrow> fx_error option \<times> 'a FX" where
  "adjoint_sweep rep x [] fx = (None, fx)"
| "adjoint_sweep rep x (d # ds) fx =
     (let s = rep_adj rep x (adj_values d (output_io fx))
      in if fits s (input_io fx)
         then adjoint_sweep rep x ds (fx\<lparr>input_io := put_adj d s (input_io fx)\<rparr>)
         else (Some EvaluationError, fx))"

text \<open>The pass: the checks, step 1 (the zero-order pass), then the two sweeps.\<close>

definition dispatch :: "'a representation \<Rightarrow> 'a evaluate_internal" where
  "dispatch rep fx nfdir nadir =
     (if \<not> dirs_allocated (nat nfdir) (nat nadir) fx then (Inl OutOfRange, fx)
      else if \<not> shapes_agree fx then (Inl DimensionMismatch, fx)
      else
        (let x = slot_values (input_io fx); y = rep_eval rep x
         in if \<not> fits y (output_io fx) then (Inl EvaluationError, fx)
            else
              (case forward_sweep rep x y [0..<nat nfdir]
                      (fx\<lparr>output_io := put_values y (output_io fx)\<rparr>) of
                 (Some e, fx2) \<Rightarrow> (Inl e, fx2)
               | (None, fx2) \<Rightarrow>
                   (case adjoint_sweep rep x [0..<nat nadir] fx2 of
                      (Some e, fx3) \<Rightarrow> (Inl e, fx3)
                    | (None, fx3) \<Rightarrow> (Inr (), fx3)))))"

text \<open>The scenario of section 8: \<open>f(x) = 2x\<close> with one scalar input and one scalar
  output.\<close>

definition times_two :: "real representation" where
  "times_two =
     \<lparr>rep_eval = map (map (\<lambda>v. 2 * v)),
      rep_fwd = (\<lambda>x y. map (map (\<lambda>v. 2 * v))),
      rep_adj = (\<lambda>x. map (map (\<lambda>v. 2 * v)))\<rparr>"

text \<open>Instances for the scenarios: a slot holding one scalar, with the given forward
  and adjoint buffers, and a function instance with one such input and one such
  output.\<close>

definition scalar_matrix :: "'a \<Rightarrow> 'a Matrix" where
  "scalar_matrix v = \<lparr>size1 = 1, size2 = 1, elems = [v]\<rparr>"

definition scalar_slot :: "'a \<Rightarrow> 'a list \<Rightarrow> 'a list \<Rightarrow> 'a FunctionIO" where
  "scalar_slot v fwd adj =
     \<lparr>data = scalar_matrix v, dataF = map scalar_matrix fwd, dataA = map scalar_matrix adj\<rparr>"

definition scalar_fx :: "lifecycle \<Rightarrow> 'a FunctionIO \<Rightarrow> 'a FunctionIO \<Rightarrow> 'a FX" where
  "scalar_fx p slot_in slot_out = \<lparr>phase = p, input_io = [slot_in], output_io = [slot_out]\<rparr>"

section \<open>Properties of the naming scheme\<close>

lemma ios_step_same: "snd (ios_step s c) = s"
  by (cases c) simp_all

lemma ios_run_same: "ios_run s cs = s"
  by (induction cs arbitrary: s) (simp_all add: ios_step_same)

lemma new_Inr_iff:
  "(\<exists>s. IOSchemeCustomInternal_new es ds = Inr s) \<longleftrightarrow> (ds = [] \<or> length ds = length es)"
  by (auto simp: IOSchemeCustomInternal_new_def vector_resize_def Let_def)

lemma new_Inr_fields:
  "IOSchemeCustomInternal_new es ds = Inr s \<Longrightarrow>
     entries s = es \<and> descriptions s = (if ds = [] then replicate (length es) [] else ds)
     \<and> length (descriptions s) = length (entries s)"
  by (auto simp: IOSchemeCustomInternal_new_def vector_resize_def Let_def split: if_splits)

lemma describe_in_range:
  "length (descriptions s) = length (entries s) \<Longrightarrow> 0 \<le> i \<Longrightarrow> i < size_ios s \<Longrightarrow>
   describe s i = Inr (if descriptions s ! nat i = [] then entries s ! nat i
      else entries s ! nat i @ [CHR '' '', CHR 0x27] @ descriptions s ! nat i @ [CHR 0x27])"
  by (auto simp: describe_def entry_def size_ios_def)

text \<open>
  Claim C9. The constructor succeeds exactly when the description list is empty or as
  long as the entry list. The object it builds has the given entries and, as
  descriptions, either the given ones or one empty description per entry. After any
  sequence of calls of the member functions (name, entryNames, entry, entryEnum,
  describe, index, size, print, repr) the two vectors still have the same length, and
  for every \<open>i\<close> with \<open>0 \<le> i < size()\<close> the read \<^verbatim>\<open>descriptions_[i]\<close> in
  \<^verbatim>\<open>describe(i)\<close> is inside the vector: \<^verbatim>\<open>describe(i)\<close> returns the entry, followed by
  its quoted description when that is not empty.
\<close>

theorem ios_descriptions_size_invariant:
  "((\<exists>s. IOSchemeCustomInternal_new es ds = Inr s) \<longleftrightarrow> (ds = [] \<or> length ds = length es)) \<and>
   (\<forall>s. IOSchemeCustomInternal_new es ds = Inr s \<longrightarrow>
      entries s = es \<and>
      descriptions s = (if ds = [] then replicate (length es) [] else ds) \<and>
      (\<forall>calls. length (descriptions (ios_run s calls)) = length (entries (ios_run s calls)) \<and>
         (\<forall>i. 0 \<le> i \<and> i < size_ios (ios_run s calls) \<longrightarrow>
            nat i < length (descriptions (ios_run s calls)) \<and>
            describe (ios_run s calls) i \<noteq> Inl OutOfBoundsRead \<and>
            describe (ios_run s calls) i =
              Inr (if descriptions s ! nat i = [] then entries s ! nat i
                   else entries s ! nat i @ [CHR '' '', CHR 0x27] @ descriptions s ! nat i
                        @ [CHR 0x27]))))"
proof (intro conjI allI impI)
  show "(\<exists>s. IOSchemeCustomInternal_new es ds = Inr s) \<longleftrightarrow> (ds = [] \<or> length ds = length es)"
    by (rule new_Inr_iff)
next
  fix s assume a: "IOSchemeCustomInternal_new es ds = Inr s"
  from new_Inr_fields[OF a] show "entries s = es" by (rule conjunct1)
  from new_Inr_fields[OF a]
  show "descriptions s = (if ds = [] then replicate (length es) [] else ds)"
    by blast
  fix calls
  from new_Inr_fields[OF a] have len: "length (descriptions s) = length (entries s)" by blast
  then show "length (descriptions (ios_run s calls)) = length (entries (ios_run s calls))"
    by (simp add: ios_run_same)
  fix i :: int assume i: "0 \<le> i \<and> i < size_ios (ios_run s calls)"
  then have i': "0 \<le> i" "i < size_ios s" by (simp_all add: ios_run_same)
  show "nat i < length (descriptions (ios_run s calls))"
    using i' len by (simp add: ios_run_same size_ios_def)
  have d: "describe s i = Inr (if descriptions s ! nat i = [] then entries s ! nat i
      else entries s ! nat i @ [CHR '' '', CHR 0x27] @ descriptions s ! nat i @ [CHR 0x27])"
    by (rule describe_in_range[OF len i'])
  show "describe (ios_run s calls) i \<noteq> Inl OutOfBoundsRead"
    by (simp only: ios_run_same d) simp
  show "describe (ios_run s calls) i =
              Inr (if descriptions s ! nat i = [] then entries s ! nat i
                   else entries s ! nat i @ [CHR '' '', CHR 0x27] @ descriptions s ! nat i
                        @ [CHR 0x27])"
    by (simp only: ios_run_same d)
qed

theorem ios_descriptions_size_invariant_witness:
  "IOSchemeCustomInternal_new [''x'', ''p''] [] =
     Inr \<lparr>entries = [''x'', ''p''], descriptions = ['''', '''']\<rparr> \<and>
   length (descriptions (ios_run \<lparr>entries = [''x'', ''p''], descriptions = ['''', '''']\<rparr>
             [Describe 7, Index ''q'', Print ''out'', Entry (- 1)])) = 2 \<and>
   describe (ios_run \<lparr>entries = [''x'', ''p''], descriptions = ['''', '''']\<rparr>
             [Describe 7, Index ''q'', Print ''out'', Entry (- 1)]) 1 = Inr ''p''"
proof -
  let ?s = "\<lparr>entries = [''x'', ''p''], descriptions = ['''', '''']\<rparr>"
  let ?calls = "[Describe 7, Index ''q'', Print ''out'', Entry (- 1)]"
  have new: "IOSchemeCustomInternal_new [''x'', ''p''] [] = Inr ?s"
    by (simp add: IOSchemeCustomInternal_new_def vector_resize_def)
  from ios_descriptions_size_invariant[of "[''x'', ''p'']" "[]"] new
  have inv: "length (descriptions (ios_run ?s ?calls)) = length (entries (ios_run ?s ?calls)) \<and>
     (\<forall>i. 0 \<le> i \<and> i < size_ios (ios_run ?s ?calls) \<longrightarrow>
            nat i < length (descriptions (ios_run ?s ?calls)) \<and>
            describe (ios_run ?s ?calls) i \<noteq> Inl OutOfBoundsRead \<and>
            describe (ios_run ?s ?calls) i =
              Inr (if descriptions ?s ! nat i = [] then entries ?s ! nat i
                   else entries ?s ! nat i @ [CHR '' '', CHR 0x27] @ descriptions ?s ! nat i
                        @ [CHR 0x27]))"
    by blast
  have sz: "size_ios (ios_run ?s ?calls) = 2"
    by (simp add: size_ios_def)
  have len: "length (entries (ios_run ?s ?calls)) = 2"
    by simp
  from inv sz have "describe (ios_run ?s ?calls) 1 =
      Inr (if descriptions ?s ! nat 1 = [] then entries ?s ! nat 1
           else entries ?s ! nat 1 @ [CHR '' '', CHR 0x27] @ descriptions ?s ! nat 1 @ [CHR 0x27])"
    by simp
  then have "describe (ios_run ?s ?calls) 1 = Inr ''p''" by simp
  with new inv len show ?thesis by simp
qed

lemma index_loop_None: "index_loop n es k = None \<longleftrightarrow> n \<notin> set es"
  by (induction es arbitrary: k) auto

lemma index_loop_Some:
  "index_loop n es k = Some r \<Longrightarrow>
     k \<le> r \<and> r - k < length es \<and> es ! (r - k) = n \<and> (\<forall>j < r - k. es ! j \<noteq> n)"
proof (induction es arbitrary: k)
  case Nil then show ?case by simp
next
  case (Cons e es)
  show ?case
  proof (cases "n = e")
    case True with Cons.prems show ?thesis by simp
  next
    case False
    with Cons.prems have r: "index_loop n es (Suc k) = Some r" by simp
    from Cons.IH[OF r] have ih: "Suc k \<le> r" "r - Suc k < length es" "es ! (r - Suc k) = n"
      "\<forall>j < r - Suc k. es ! j \<noteq> n" by auto
    have eq: "r - k = Suc (r - Suc k)" using ih(1) by simp
    show ?thesis unfolding eq using ih False
      by (auto simp: nth_Cons split: nat.splits)
  qed
qed

lemma index_found:
  assumes "n \<in> set (entries s)"
  shows "\<exists>k. index s n = Inr (int k) \<and> k < length (entries s) \<and> entries s ! k = n \<and>
           (\<forall>j<k. entries s ! j \<noteq> n)"
proof -
  from assms obtain r where r: "index_loop n (entries s) 0 = Some r"
    using index_loop_None[of n "entries s" 0] by (cases "index_loop n (entries s) 0") auto
  from index_loop_Some[OF r] show ?thesis by (auto simp: index_def r)
qed

lemma index_missing:
  "n \<notin> set (entries s) \<Longrightarrow> index s n = Inl (EntryNotAvailable n (entryNames s))"
  using index_loop_None[of n "entries s" 0] by (simp add: index_def)

lemma index_entry:
  assumes d: "distinct (entries s)" and i: "0 \<le> i" "i < size_ios s"
  shows "entry s i = Inr (entries s ! nat i) \<and> index s (entries s ! nat i) = Inr i"
proof -
  have lt: "nat i < length (entries s)" using i by (simp add: size_ios_def)
  then have mem: "entries s ! nat i \<in> set (entries s)" by simp
  from index_found[OF mem] obtain k where k: "index s (entries s ! nat i) = Inr (int k)"
    "k < length (entries s)" "entries s ! k = entries s ! nat i" by blast
  from d k(2,3) lt have "k = nat i" by (simp add: nth_eq_iff_index_eq)
  with k(1) i show ?thesis using lt by (simp add: entry_def)
qed

text \<open>
  Claim C10. When some entry equals the name, \<^verbatim>\<open>index(name)\<close> returns the smallest
  position at which an entry equals it. When no entry equals the name, the call does
  not return: it throws the error that names the missing entry and lists the
  available ones. When the entry names are pairwise distinct, \<^verbatim>\<open>index(entry(i))\<close> is
  \<open>i\<close> for every \<open>i\<close> with \<open>0 \<le> i < size()\<close>.
\<close>

theorem ios_index_first_match:
  "(n \<in> set (entries s) \<longrightarrow>
      (\<exists>k. index s n = Inr (int k) \<and> k < length (entries s) \<and> entries s ! k = n \<and>
           (\<forall>j<k. entries s ! j \<noteq> n))) \<and>
   (n \<notin> set (entries s) \<longrightarrow> index s n = Inl (EntryNotAvailable n (entryNames s))) \<and>
   (distinct (entries s) \<longrightarrow> (\<forall>i. 0 \<le> i \<and> i < size_ios s \<longrightarrow>
      entry s i = Inr (entries s ! nat i) \<and> index s (entries s ! nat i) = Inr i))"
  using index_found[of n s] index_missing[of n s] index_entry[of s] by blast

theorem ios_index_first_match_witness:
  "index \<lparr>entries = [''x'', ''p'', ''x''], descriptions = ['''', '''', '''']\<rparr> ''x'' = Inr 0 \<and>
   index \<lparr>entries = [''x'', ''p''], descriptions = ['''', '''']\<rparr> ''q'' =
     Inl (EntryNotAvailable ''q'' ''x, p'') \<and>
   entry \<lparr>entries = [''x'', ''p''], descriptions = ['''', '''']\<rparr> 1 = Inr ''p'' \<and>
   index \<lparr>entries = [''x'', ''p''], descriptions = ['''', '''']\<rparr> ''p'' = Inr 1"
proof -
  let ?t = "\<lparr>entries = [''x'', ''p'', ''x''], descriptions = ['''', '''', '''']\<rparr>"
  let ?s = "\<lparr>entries = [''x'', ''p''], descriptions = ['''', '''']\<rparr>"
  from ios_index_first_match[of "''x''" ?t]
  obtain k where k: "index ?t ''x'' = Inr (int k)" "\<forall>j<k. entries ?t ! j \<noteq> ''x''"
    by auto
  have "k = 0"
  proof (rule ccontr)
    assume "k \<noteq> 0"
    then have "0 < k" by simp
    with k(2) have "entries ?t ! 0 \<noteq> ''x''" by blast
    then show False by simp
  qed
  with k(1) have a: "index ?t ''x'' = Inr 0" by simp
  from ios_index_first_match[of "''q''" ?s]
  have b: "index ?s ''q'' = Inl (EntryNotAvailable ''q'' ''x, p'')"
    by (simp add: entryNames_def)
  from ios_index_first_match[of "''q''" ?s]
  have all: "\<forall>i. 0 \<le> i \<and> i < size_ios ?s \<longrightarrow>
      entry ?s i = Inr (entries ?s ! nat i) \<and> index ?s (entries ?s ! nat i) = Inr i"
    by simp
  have "0 \<le> (1::int) \<and> 1 < size_ios ?s" by (simp add: size_ios_def)
  with all have "entry ?s 1 = Inr (entries ?s ! nat 1) \<and> index ?s (entries ?s ! nat 1) = Inr 1"
    by blast
  then have c: "entry ?s 1 = Inr ''p'' \<and> index ?s ''p'' = Inr 1" by simp
  from a b c show ?thesis by simp
qed

section \<open>Properties of the MUMPS backend\<close>

text \<open>
  Claim C6. A call of \<^verbatim>\<open>MumpsInterface::solve\<close> with the transpose flag set, or
  with a number of right-hand sides other than one, throws the error
  \<^verbatim>\<open>not implemented\<close> (the backend's way of reporting an unsupported operation). The
  memory object and the buffer \<^verbatim>\<open>x\<close> are then as they were and the result does not
  depend on the library routine: no numeric solve has been performed. The error is
  thrown in these cases only.
\<close>

theorem mumps_solve_unsupported:
  "(tr \<or> nrhs \<noteq> 1 \<longrightarrow>
      solve dmumps_c nrow_sp m A x nrhs tr = (Inl (CasadiError ''not implemented''), m, x)) \<and>
   (fst (solve dmumps_c nrow_sp m A x nrhs tr) = Inl (CasadiError ''not implemented'') \<longrightarrow>
      tr \<or> nrhs \<noteq> 1)"
  by (auto simp: solve_def Let_def split: option.splits)

theorem mumps_solve_unsupported_witness:
  "solve (\<lambda>d. d\<lparr>id_rhs := [2]\<rparr>) 1
     \<lparr>mem_id = Some \<lparr>id_job = - 1, id_n = 0, id_nnz = 0, id_irn = [], id_jcn = [],
                      id_a = [], id_rhs = [], id_icntl = [0, 0, 0, 0]\<rparr>,
      mem_irn = [1], mem_jcn = [1]\<rparr>
     [2 :: real] [4] 2 False =
   (Inl (CasadiError ''not implemented''),
    \<lparr>mem_id = Some \<lparr>id_job = - 1, id_n = 0, id_nnz = 0, id_irn = [], id_jcn = [],
                      id_a = [], id_rhs = [], id_icntl = [0, 0, 0, 0]\<rparr>,
      mem_irn = [1], mem_jcn = [1]\<rparr>, [4]) \<and>
   fst (solve (\<lambda>d. d\<lparr>id_rhs := [2]\<rparr>) 1
     \<lparr>mem_id = Some \<lparr>id_job = - 1, id_n = 0, id_nnz = 0, id_irn = [], id_jcn = [],
                      id_a = [], id_rhs = [], id_icntl = [0, 0, 0, 0]\<rparr>,
      mem_irn = [1], mem_jcn = [1]\<rparr>
     [2 :: real] [4] 1 False) = Inr 0"
proof -
  let ?m = "\<lparr>mem_id = Some \<lparr>id_job = - 1, id_n = 0, id_nnz = 0, id_irn = [], id_jcn = [],
                      id_a = [], id_rhs = [], id_icntl = [0, 0, 0, 0]\<rparr>,
      mem_irn = [1], mem_jcn = [1]\<rparr> :: real MumpsMemory"
  from mumps_solve_unsupported[of False 2 "\<lambda>d. d\<lparr>id_rhs := [2]\<rparr>" 1 ?m "[2]" "[4]"]
  have "solve (\<lambda>d. d\<lparr>id_rhs := [2]\<rparr>) 1 ?m [2] [4] 2 False
          = (Inl (CasadiError ''not implemented''), ?m, [4])"
    by simp
  moreover have "fst (solve (\<lambda>d. d\<lparr>id_rhs := [2]\<rparr>) 1 ?m [2] [4] 1 False) = Inr 0"
    by (simp add: solve_def)
  ultimately show ?thesis by simp
qed

section \<open>Properties of the general function\<close>

lemma assertInit_not_ready: "phase fx \<noteq> Ready \<Longrightarrow> assertInit fx = Some NotInitialized"
  by (simp add: assertInit_def)

lemma set_buffer_not_ready:
  "phase fx \<noteq> Ready \<Longrightarrow> set_buffer b val ind dir fx = (Inl NotInitialized, fx)"
  by (simp add: set_buffer_def assertInit_not_ready)

lemma get_buffer_not_ready:
  "phase fx \<noteq> Ready \<Longrightarrow> get_buffer b val ind dir fx = (Inl NotInitialized, fx)"
  by (simp add: get_buffer_def assertInit_not_ready)

lemma init_ready:
  "phase fx \<noteq> Ready \<Longrightarrow>
     phase (init fx) = Ready \<and> input_io (init fx) = input_io fx \<and> output_io (init fx) = output_io fx"
  by (cases "phase fx") (simp_all add: init_def init_begin_def init_finish_def)

text \<open>
  Claim C7. On a function instance that has not reached the Ready state
  (Uninitialized or Initializing), each of \<^verbatim>\<open>evaluate\<close>, \<^verbatim>\<open>jacobian\<close>, \<^verbatim>\<open>hessian\<close>, the six
  setters and the six getters fails with NotInitialized and leaves the instance as it
  was, whatever the arguments and whatever the internal twin would do. The instance
  can still be initialised: initialisation takes it to the Ready state with its
  slots untouched, and \<^verbatim>\<open>evaluate\<close> then reaches the internal evaluation.
\<close>

theorem fx_not_initialized:
  "phase fx \<noteq> Ready \<Longrightarrow>
     evaluate ev fx nfdir nadir = (Inl NotInitialized, fx) \<and>
     jacobian jac fx iind oind = (Inl NotInitialized, fx) \<and>
     hessian hess fx iind oind = (Inl NotInitialized, fx) \<and>
     setInput val ind fx = (Inl NotInitialized, fx) \<and>
     setOutput val ind fx = (Inl NotInitialized, fx) \<and>
     setFwdSeed val ind dir fx = (Inl NotInitialized, fx) \<and>
     setFwdSens val ind dir fx = (Inl NotInitialized, fx) \<and>
     setAdjSeed val ind dir fx = (Inl NotInitialized, fx) \<and>
     setAdjSens val ind dir fx = (Inl NotInitialized, fx) \<and>
     getInput val ind fx = (Inl NotInitialized, fx) \<and>
     getOutput val ind fx = (Inl NotInitialized, fx) \<and>
     getFwdSeed val ind dir fx = (Inl NotInitialized, fx) \<and>
     getFwdSens val ind dir fx = (Inl NotInitialized, fx) \<and>
     getAdjSeed val ind dir fx = (Inl NotInitialized, fx) \<and>
     getAdjSens val ind dir fx = (Inl NotInitialized, fx) \<and>
     phase (init fx) = Ready \<and>
     input_io (init fx) = input_io fx \<and>
     output_io (init fx) = output_io fx \<and>
     evaluate ev (init fx) nfdir nadir = ev (init fx) nfdir nadir"
proof -
  assume nr: "phase fx \<noteq> Ready"
  have calls:
    "evaluate ev fx nfdir nadir = (Inl NotInitialized, fx)"
    "jacobian jac fx iind oind = (Inl NotInitialized, fx)"
    "hessian hess fx iind oind = (Inl NotInitialized, fx)"
    by (simp_all add: evaluate_def jacobian_def hessian_def assertInit_not_ready[OF nr])
  have setters:
    "setInput val ind fx = (Inl NotInitialized, fx)"
    "setOutput val ind fx = (Inl NotInitialized, fx)"
    "setFwdSeed val ind dir fx = (Inl NotInitialized, fx)"
    "setFwdSens val ind dir fx = (Inl NotInitialized, fx)"
    "setAdjSeed val ind dir fx = (Inl NotInitialized, fx)"
    "setAdjSens val ind dir fx = (Inl NotInitialized, fx)"
    by (simp_all add: setInput_def setOutput_def setFwdSeed_def setFwdSens_def setAdjSeed_def
        setAdjSens_def set_buffer_not_ready[OF nr])
  have getters:
    "getInput val ind fx = (Inl NotInitialized, fx)"
    "getOutput val ind fx = (Inl NotInitialized, fx)"
    "getFwdSeed val ind dir fx = (Inl NotInitialized, fx)"
    "getFwdSens val ind dir fx = (Inl NotInitialized, fx)"
    "getAdjSeed val ind dir fx = (Inl NotInitialized, fx)"
    "getAdjSens val ind dir fx = (Inl NotInitialized, fx)"
    by (simp_all add: getInput_def getOutput_def getFwdSeed_def getFwdSens_def getAdjSeed_def
        getAdjSens_def get_buffer_not_ready[OF nr])
  note i = init_ready[OF nr]
  have after: "evaluate ev (init fx) nfdir nadir = ev (init fx) nfdir nadir"
    using i by (simp add: evaluate_def assertInit_def)
  from calls setters getters i after show ?thesis by simp
qed

theorem fx_not_initialized_witness:
  "setInput [5 :: real] 0 (scalar_fx Uninitialized (scalar_slot 3 [1] [0]) (scalar_slot 0 [0] [1]))
     = (Inl NotInitialized, scalar_fx Uninitialized (scalar_slot 3 [1] [0]) (scalar_slot 0 [0] [1])) \<and>
   evaluate (dispatch times_two)
       (scalar_fx Initializing (scalar_slot 3 [1] [0]) (scalar_slot 0 [0] [1])) 1 1
     = (Inl NotInitialized, scalar_fx Initializing (scalar_slot 3 [1] [0]) (scalar_slot 0 [0] [1])) \<and>
   init (scalar_fx Uninitialized (scalar_slot 3 [1] [0]) (scalar_slot 0 [0] [1]))
     = scalar_fx Ready (scalar_slot (3 :: real) [1] [0]) (scalar_slot 0 [0] [1]) \<and>
   setInput [5 :: real] 0
       (init (scalar_fx Uninitialized (scalar_slot 3 [1] [0]) (scalar_slot 0 [0] [1])))
     = (Inr (), scalar_fx Ready (scalar_slot 5 [1] [0]) (scalar_slot 0 [0] [1]))"
proof -
  let ?u = "scalar_fx Uninitialized (scalar_slot (3 :: real) [1] [0]) (scalar_slot 0 [0] [1])"
  let ?i = "scalar_fx Initializing (scalar_slot (3 :: real) [1] [0]) (scalar_slot 0 [0] [1])"
  have u: "phase ?u \<noteq> Ready" and i: "phase ?i \<noteq> Ready"
    by (simp_all add: scalar_fx_def)
  from fx_not_initialized[OF u, where val = "[5]" and ind = 0]
  have a: "setInput [5] 0 ?u = (Inl NotInitialized, ?u)" by blast
  from fx_not_initialized[OF i, where ev = "dispatch times_two" and nfdir = 1 and nadir = 1]
  have b: "evaluate (dispatch times_two) ?i 1 1 = (Inl NotInitialized, ?i)" by blast
  have c: "init ?u = scalar_fx Ready (scalar_slot 3 [1] [0]) (scalar_slot 0 [0] [1])"
    by (simp add: init_def init_begin_def init_finish_def scalar_fx_def)
  have d: "setInput [5 :: real] 0 (scalar_fx Ready (scalar_slot 3 [1] [0]) (scalar_slot 0 [0] [1]))
     = (Inr (), scalar_fx Ready (scalar_slot 5 [1] [0]) (scalar_slot 0 [0] [1]))"
    by (simp add: setInput_def set_buffer_def assertInit_def buffer_ref_def buffer_assign_def
        at_index_def Matrix_set_def scalar_fx_def scalar_slot_def scalar_matrix_def)
  from a b c d show ?thesis by simp
qed

end
